theory Spec2Isabelle
  imports Complex_Main "HOL-Library.Sublist" "HOL-Library.AList"
begin

section \<open>Values shared by the client and the process tools\<close>

text \<open>
  A value thrown by JavaScript code: an \<open>Error\<close> object with its \<open>message\<close>, or any
  other value, kept as the string \<open>String(value)\<close> gives for it.
\<close>

datatype thrown = Error string | Non_error string

text \<open>\<open>error instanceof Error ? error.message : String(error)\<close>\<close>

fun error_message :: "thrown \<Rightarrow> string" where
  "error_message (Error m) = m"
| "error_message (Non_error s) = s"

text \<open>
  A JavaScript value handed to \<open>JSON.stringify\<close>. Numbers are the finite ones, as reals;
  no arithmetic is done on them. A field whose value is \<open>undefined\<close> is \<open>JUndefined\<close>.
\<close>

datatype json =
    JUndefined
  | JNull
  | JBool bool
  | JNum real
  | JStr string
  | JArr "json list"
  | JObj "(string \<times> json) list"

text \<open>\<open>String(n)\<close> for an integer \<open>n\<close>: its decimal digits, with a minus sign when negative.\<close>

definition digit_char :: "nat \<Rightarrow> char" where
  "digit_char d = ''0123456789'' ! (d mod 10)"

function string_of_nat :: "nat \<Rightarrow> string" where
  "string_of_nat n =
     (if n < 10 then [digit_char n]
      else string_of_nat (n div 10) @ [digit_char (n mod 10)])"
  by pat_completeness auto
termination
  by (relation "measure id") auto

declare string_of_nat.simps [simp del]

definition string_of_int :: "int \<Rightarrow> string" where
  "string_of_int i =
     (if i < 0 then ''-'' @ string_of_nat (nat (- i)) else string_of_nat (nat i))"

text \<open>\<open>s.includes(sub)\<close>, the test behind the test-suite's \<open>toContain\<close> on strings.\<close>

definition str_includes :: "string \<Rightarrow> string \<Rightarrow> bool" where
  "str_includes s sub = sublist sub s"

section \<open>Process control tools (src/tools/process.ts)\<close>

subsection \<open>Data\<close>

text \<open>
  A \<open>ChildProcess\<close> object as \<open>spawn\<close> returns it: its identity as an object, and its
  \<open>pid\<close> field (\<open>number | undefined\<close>).
\<close>

record ChildProcess =
  obj_id :: nat
  child_pid :: "nat option"

record ProcessState =
  process :: "ChildProcess option"
  pid :: "nat option"

definition createProcessState :: ProcessState where
  "createProcessState = \<lparr>process = None, pid = None\<rparr>"

record Config =
  serverUrl :: string
  timeout :: nat
  modelPath :: "string option"
  serverPath :: string

text \<open>
  What \<open>StartInputSchema.parse\<close> returns. The schema fills in the defaults of \<open>port\<close>,
  \<open>ctx_size\<close> and \<open>n_gpu_layers\<close>; the handler still writes \<open>?? 8080\<close> and so on, so the
  fields stay optional here. The numbers are integers, as ports, sizes and counts are.
\<close>

record StartInput =
  model :: string
  port :: "int option"
  ctx_size :: "int option"
  n_gpu_layers :: "int option"
  threads :: "int option"

record HealthResponse =
  status :: string
  slots_idle :: nat
  slots_processing :: nat

text \<open>The \<open>text\<close> of a content item: a template string, or \<open>JSON.stringify(v, null, 2)\<close>.\<close>

datatype content_text = Plain string | Stringified json

record ToolResult =
  content :: "content_text list"
  isError :: "bool option"

text \<open>What a handler does to the outside world, in order.\<close>

datatype effect =
    Spawn string "string list"
  | On_exit nat
  | Kill nat string
  | Health_call
  | Delay nat

record handler_run =
  returned :: ToolResult
  state_after :: ProcessState
  effects :: "effect list"

subsection \<open>waitForHealth\<close>

text \<open>
  \<open>health i\<close> is what the call \<open>client.health()\<close> of iteration \<open>i\<close> does: it throws
  (\<open>Inl\<close>) or resolves to a response (\<open>Inr\<close>). The result is the list of calls and pauses
  the loop made, and the boolean it returns.
\<close>

definition after_effects :: "effect list \<Rightarrow> effect list \<times> bool \<Rightarrow> effect list \<times> bool" where
  "after_effects es r = (es @ fst r, snd r)"

function waitForHealth_from ::
  "(nat \<Rightarrow> thrown + HealthResponse) \<Rightarrow> nat \<Rightarrow> nat \<Rightarrow> nat \<Rightarrow> effect list \<times> bool" where
  "waitForHealth_from health maxAttempts delayMs i =
     (if i < maxAttempts then
        (case health i of
           Inr h \<Rightarrow>
             if status h = ''ok'' then ([Health_call], True)
             else if status h = ''loading_model'' then
               after_effects [Health_call, Delay delayMs]
                 (waitForHealth_from health maxAttempts delayMs (i + 1))
             else
               after_effects [Health_call]
                 (waitForHealth_from health maxAttempts delayMs (i + 1))
         | Inl e \<Rightarrow>
             after_effects [Health_call, Delay delayMs]
               (waitForHealth_from health maxAttempts delayMs (i + 1)))
      else ([], False))"
  by pat_completeness auto
termination
  by (relation "measure (\<lambda>(health, maxAttempts, delayMs, i). maxAttempts - i)") auto

declare waitForHealth_from.simps [simp del]

definition waitForHealth ::
  "(nat \<Rightarrow> thrown + HealthResponse) \<Rightarrow> nat \<Rightarrow> nat \<Rightarrow> effect list \<times> bool" where
  "waitForHealth health maxAttempts delayMs = waitForHealth_from health maxAttempts delayMs 0"

subsection \<open>llama_start\<close>

text \<open>
  What the world does during one call of the start handler: the outcome of
  \<open>StartInputSchema.parse(input)\<close>, of \<open>spawn\<close>, of each \<open>client.health()\<close>, of
  \<open>serverProcess.kill\<close> (\<open>Some e\<close> when it throws \<open>e\<close>), and whether an \<open>exit\<close> event
  whose handler clears this state is delivered while the handler is suspended in
  \<open>waitForHealth\<close>.
\<close>

record start_env =
  parse_result :: "thrown + StartInput"
  spawn_result :: "thrown + ChildProcess"
  health_result :: "nat \<Rightarrow> thrown + HealthResponse"
  exit_while_polling :: bool
  kill_result :: "thrown option"

definition error_result :: "string \<Rightarrow> ToolResult" where
  "error_result msg = \<lparr>content = [Plain msg], isError = Some True\<rparr>"

text \<open>The \<open>catch (error)\<close> block of both handlers.\<close>

definition catch_result :: "thrown \<Rightarrow> ToolResult" where
  "catch_result e = error_result (''Error: '' @ error_message e)"

definition nullish_or :: "'a option \<Rightarrow> 'a \<Rightarrow> 'a" where
  "nullish_or v d = (case v of None \<Rightarrow> d | Some x \<Rightarrow> x)"

definition start_args :: "StartInput \<Rightarrow> string list" where
  "start_args parsed =
     [''-m'', model parsed,
      ''--port'', string_of_int (nullish_or (port parsed) 8080),
      ''-c'', string_of_int (nullish_or (ctx_size parsed) 2048),
      ''-ngl'', string_of_int (nullish_or (n_gpu_layers parsed) (- 1))]
     @ (case threads parsed of None \<Rightarrow> [] | Some t \<Rightarrow> [''-t'', string_of_int t])"

text \<open>The handler registered with \<open>serverProcess.on('exit', ...)\<close>.\<close>

definition exit_handler :: "ProcessState \<Rightarrow> ProcessState" where
  "exit_handler st = st\<lparr>process := None, pid := None\<rparr>"

definition already_running_text :: "nat \<Rightarrow> string" where
  "already_running_text p =
     ''Error: llama-server is already running with PID '' @ string_of_nat p
       @ ''. Use llama_stop first.''"

definition failed_to_start_text :: "Config \<Rightarrow> string" where
  "failed_to_start_text config =
     ''Error: Failed to start llama-server at '' @ serverPath config
       @ ''. Check that the binary exists and is executable.''"

definition not_healthy_text :: string where
  "not_healthy_text =
     ''Error: llama-server started but did not become healthy within 30 seconds. Check model path and server logs.''"

definition json_of_pid :: "nat option \<Rightarrow> json" where
  "json_of_pid p = (case p of None \<Rightarrow> JNull | Some n \<Rightarrow> JNum (of_nat n))"

definition started_result :: "ProcessState \<Rightarrow> StartInput \<Rightarrow> ToolResult" where
  "started_result st parsed =
     \<lparr>content = [Stringified (JObj
        [(''status'', JStr ''started''),
         (''pid'', json_of_pid (pid st)),
         (''model'', JStr (model parsed)),
         (''port'', JNum (of_int (nullish_or (port parsed) 8080)))])],
      isError = None\<rparr>"

text \<open>
  The part of the handler after a successful spawn with a process id: record the state,
  register the exit handler, poll, and roll back when the server did not become healthy.
\<close>

definition start_spawned ::
  "start_env \<Rightarrow> StartInput \<Rightarrow> effect \<Rightarrow> ChildProcess \<Rightarrow> handler_run" where
  "start_spawned env parsed sp serverProcess =
     (let stored = \<lparr>process = Some serverProcess, pid = child_pid serverProcess\<rparr>;
          polled = waitForHealth (health_result env) 30 1000;
          st = (if exit_while_polling env then exit_handler stored else stored);
          es = [sp, On_exit (obj_id serverProcess)] @ fst polled
      in if \<not> snd polled then
           (case kill_result env of
              Some e \<Rightarrow>
                \<lparr>returned = catch_result e, state_after = st,
                 effects = es @ [Kill (obj_id serverProcess) ''SIGTERM'']\<rparr>
            | None \<Rightarrow>
                \<lparr>returned = error_result not_healthy_text,
                 state_after = st\<lparr>process := None, pid := None\<rparr>,
                 effects = es @ [Kill (obj_id serverProcess) ''SIGTERM'']\<rparr>)
         else \<lparr>returned = started_result st parsed, state_after = st, effects = es\<rparr>)"

definition start_handler :: "Config \<Rightarrow> start_env \<Rightarrow> ProcessState \<Rightarrow> handler_run" where
  "start_handler config env st =
     (case parse_result env of
        Inl e \<Rightarrow> \<lparr>returned = catch_result e, state_after = st, effects = []\<rparr>
      | Inr parsed \<Rightarrow>
          (case (process st, pid st) of
             (Some running, Some p) \<Rightarrow>
               \<lparr>returned = error_result (already_running_text p), state_after = st,
                effects = []\<rparr>
           | _ \<Rightarrow>
               (let sp = Spawn (serverPath config) (start_args parsed)
                in case spawn_result env of
                     Inl e \<Rightarrow> \<lparr>returned = catch_result e, state_after = st, effects = [sp]\<rparr>
                   | Inr serverProcess \<Rightarrow>
                       if child_pid serverProcess = None \<or> child_pid serverProcess = Some 0
                       then \<lparr>returned = error_result (failed_to_start_text config),
                             state_after = st, effects = [sp]\<rparr>
                       else start_spawned env parsed sp serverProcess)))"

subsection \<open>llama_stop\<close>

definition stopped_result :: "nat \<Rightarrow> ToolResult" where
  "stopped_result p =
     \<lparr>content = [Stringified (JObj [(''status'', JStr ''stopped''), (''pid'', JNum (of_nat p))])],
      isError = None\<rparr>"

text \<open>\<open>kill_outcome\<close> is what \<open>state.process.kill('SIGTERM')\<close> does: \<open>Some e\<close> when it throws.\<close>

definition stop_handler :: "thrown option \<Rightarrow> ProcessState \<Rightarrow> handler_run" where
  "stop_handler kill_outcome st =
     (case (process st, pid st) of
        (Some running, Some p) \<Rightarrow>
          (case kill_outcome of
             Some e \<Rightarrow>
               \<lparr>returned = catch_result e, state_after = st,
                effects = [Kill (obj_id running) ''SIGTERM'']\<rparr>
           | None \<Rightarrow>
               \<lparr>returned = stopped_result p,
                state_after = st\<lparr>process := None, pid := None\<rparr>,
                effects = [Kill (obj_id running) ''SIGTERM'']\<rparr>)
      | _ \<Rightarrow>
          \<lparr>returned = error_result ''Error: llama-server is not running. Nothing to stop.'',
           state_after = st, effects = []\<rparr>)"

subsection \<open>The tools sharing one state\<close>

text \<open>
  Both tools and every registered exit handler close over the same \<open>ProcessState\<close>
  object. \<open>exit_listeners\<close> lists the child processes on which a start call has
  registered its handler; an \<open>exit\<close> event of such a child runs that handler.
\<close>

record tool_system =
  proc_state :: ProcessState
  exit_listeners :: "nat list"

datatype operation =
    Start Config start_env
  | Stop "thrown option"
  | Child_exit nat

fun registered :: "effect list \<Rightarrow> nat list" where
  "registered [] = []"
| "registered (On_exit c # es) = c # registered es"
| "registered (e # es) = registered es"

fun step :: "tool_system \<Rightarrow> operation \<Rightarrow> tool_system" where
  "step s (Start config env) =
     (let r = start_handler config env (proc_state s)
      in \<lparr>proc_state = state_after r,
          exit_listeners = exit_listeners s @ registered (effects r)\<rparr>)"
| "step s (Stop kill_outcome) =
     s\<lparr>proc_state := state_after (stop_handler kill_outcome (proc_state s))\<rparr>"
| "step s (Child_exit c) =
     (if c \<in> set (exit_listeners s) then s\<lparr>proc_state := exit_handler (proc_state s)\<rparr>
      else s)"

definition initial_system :: tool_system where
  "initial_system = \<lparr>proc_state = createProcessState, exit_listeners = []\<rparr>"

section \<open>HTTP client (src/client.ts)\<close>

subsection \<open>The fetch interface\<close>

text \<open>
  The body of a response as the server sent it: nothing, a text that is not a JSON
  document, or the text of the JSON value \<open>v\<close>.
\<close>

datatype resp_body = No_body | Non_json string | Json_doc json

record Response =
  http_status :: nat
  statusText :: string
  sent_body :: resp_body

text \<open>\<open>response.ok\<close>: the status is in the range 200 to 299.\<close>

definition ok :: "Response \<Rightarrow> bool" where
  "ok response = (200 \<le> http_status response \<and> http_status response \<le> 299)"

text \<open>
  \<open>response.json()\<close> parses the body as JSON, and rejects with a \<open>SyntaxError\<close> when the
  body is empty or is not a JSON document (the message depends on the engine and the text;
  nothing below reads it). \<open>response.text()\<close> gives the body unparsed.
\<close>

definition response_json :: "Response \<Rightarrow> thrown + json" where
  "response_json response =
     (case sent_body response of
        Json_doc v \<Rightarrow> Inr v
      | No_body \<Rightarrow> Inl (Error ''Unexpected end of JSON input'')
      | Non_json s \<Rightarrow> Inl (Error ''Unexpected token in JSON''))"

definition response_text :: "Response \<Rightarrow> resp_body" where
  "response_text response = sent_body response"

text \<open>
  The \<open>options\<close> argument of \<open>fetchJson\<close>. \<open>body\<close> holds the value \<open>v\<close> of
  \<open>body: JSON.stringify(v)\<close>.
\<close>

record RequestInit =
  http_method :: "string option"
  body :: "json option"
  headers :: "(string \<times> string) list option"

text \<open>The two arguments of one \<open>fetch\<close> call; \<open>signal\<close> says an abort signal was passed.\<close>

record Request =
  url :: string
  init :: RequestInit
  signal :: bool

datatype net_event = Set_timeout nat | Fetch Request | Clear_timeout

text \<open>Object spread \<open>{...a, ...b}\<close> on string-keyed objects: a later key overrides.\<close>

definition spread :: "(string \<times> 'v) list \<Rightarrow> (string \<times> 'v) list \<Rightarrow> (string \<times> 'v) list" where
  "spread a b = foldl (\<lambda>acc (k, v). AList.update k v acc) a b"

text \<open>\<open>options?.field\<close>\<close>

definition opt_field :: "'o option \<Rightarrow> ('o \<Rightarrow> 'a option) \<Rightarrow> 'a option" where
  "opt_field options field = (case options of None \<Rightarrow> None | Some opts \<Rightarrow> field opts)"

definition http_error :: "Response \<Rightarrow> thrown" where
  "http_error response =
     Error (''HTTP '' @ string_of_nat (http_status response) @ '': '' @ statusText response)"

text \<open>
  \<open>fetch_impl\<close> is the platform's \<open>fetch\<close> with the server behind it: it rejects (network
  failure, or the abort the timer fires) or resolves to a response.
\<close>

definition fetchJson ::
  "Config \<Rightarrow> (Request \<Rightarrow> thrown + Response) \<Rightarrow> string \<Rightarrow> RequestInit option
     \<Rightarrow> net_event list \<times> (thrown + json)" where
  "fetchJson config fetch_impl path options =
     (let request =
            \<lparr>url = serverUrl config @ path,
             init = \<lparr>http_method = opt_field options http_method,
                     body = opt_field options body,
                     headers = Some (spread [(''Content-Type'', ''application/json'')]
                                  (nullish_or (opt_field options headers) []))\<rparr>,
             signal = True\<rparr>
      in ([Set_timeout (timeout config), Fetch request, Clear_timeout],
          case fetch_impl request of
            Inl e \<Rightarrow> Inl e
          | Inr response \<Rightarrow>
              if \<not> ok response then Inl (http_error response)
              else response_json response))"

definition fetchText ::
  "Config \<Rightarrow> (Request \<Rightarrow> thrown + Response) \<Rightarrow> string
     \<Rightarrow> net_event list \<times> (thrown + resp_body)" where
  "fetchText config fetch_impl path =
     (let request =
            \<lparr>url = serverUrl config @ path,
             init = \<lparr>http_method = None, body = None, headers = None\<rparr>,
             signal = True\<rparr>
      in ([Set_timeout (timeout config), Fetch request, Clear_timeout],
          case fetch_impl request of
            Inl e \<Rightarrow> Inl e
          | Inr response \<Rightarrow>
              if \<not> ok response then Inl (http_error response)
              else Inr (response_text response)))"

definition post :: "json \<Rightarrow> RequestInit option" where
  "post v = Some \<lparr>http_method = Some ''POST'', body = Some v, headers = None\<rparr>"

subsection \<open>Parameter records (src/types.ts)\<close>

record TokenizeOptions =
  add_special :: "bool option"
  with_pieces :: "bool option"

record ChatMessage =
  role :: string
  content :: string

record CompletionOptions =
  max_tokens :: "real option"
  temperature :: "real option"
  top_p :: "real option"
  top_k :: "real option"
  stop :: "string list option"
  seed :: "real option"

record ChatOptions =
  max_tokens :: "real option"
  temperature :: "real option"
  top_p :: "real option"
  stop :: "string list option"
  seed :: "real option"

record InfillOptions =
  max_tokens :: "real option"
  temperature :: "real option"
  stop :: "string list option"

record LoraAdapterUpdate =
  id' :: real
  scale :: real

text \<open>How each parameter appears as a value inside the object given to \<open>JSON.stringify\<close>.\<close>

definition json_opt :: "('a \<Rightarrow> json) \<Rightarrow> 'a option \<Rightarrow> json" where
  "json_opt f v = (case v of None \<Rightarrow> JUndefined | Some x \<Rightarrow> f x)"

definition json_strings :: "string list \<Rightarrow> json" where
  "json_strings xs = JArr (map JStr xs)"

definition json_message :: "ChatMessage \<Rightarrow> json" where
  "json_message m = JObj [(''role'', JStr (role m)), (''content'', JStr (ChatMessage.content m))]"

definition json_messages :: "ChatMessage list \<Rightarrow> json" where
  "json_messages ms = JArr (map json_message ms)"

definition json_adapter :: "LoraAdapterUpdate \<Rightarrow> json" where
  "json_adapter a = JObj [(''id'', JNum (id' a)), (''scale'', JNum (scale a))]"

subsection \<open>The client's methods\<close>

type_synonym fetch = "Request \<Rightarrow> thrown + Response"

definition health :: "Config \<Rightarrow> fetch \<Rightarrow> net_event list \<times> (thrown + json)" where
  "health config fetch_impl = fetchJson config fetch_impl ''/health'' None"

definition props :: "Config \<Rightarrow> fetch \<Rightarrow> json option \<Rightarrow> net_event list \<times> (thrown + json)" where
  "props config fetch_impl settings =
     (case settings of
        Some s \<Rightarrow>
          fetchJson config fetch_impl ''/props'' (post (JObj [(''default_generation_settings'', s)]))
      | None \<Rightarrow> fetchJson config fetch_impl ''/props'' None)"

definition models :: "Config \<Rightarrow> fetch \<Rightarrow> net_event list \<times> (thrown + json)" where
  "models config fetch_impl = fetchJson config fetch_impl ''/v1/models'' None"

definition slots :: "Config \<Rightarrow> fetch \<Rightarrow> net_event list \<times> (thrown + json)" where
  "slots config fetch_impl = fetchJson config fetch_impl ''/slots'' None"

definition metrics :: "Config \<Rightarrow> fetch \<Rightarrow> net_event list \<times> (thrown + resp_body)" where
  "metrics config fetch_impl = fetchText config fetch_impl ''/metrics''"

definition tokenize ::
  "Config \<Rightarrow> fetch \<Rightarrow> string \<Rightarrow> TokenizeOptions option \<Rightarrow> net_event list \<times> (thrown + json)" where
  "tokenize config fetch_impl text_content options =
     fetchJson config fetch_impl ''/tokenize''
       (post (JObj
          [(''content'', JStr text_content),
           (''add_special'', JBool (nullish_or (opt_field options add_special) True)),
           (''with_pieces'', JBool (nullish_or (opt_field options with_pieces) False))]))"

definition detokenize ::
  "Config \<Rightarrow> fetch \<Rightarrow> real list \<Rightarrow> net_event list \<times> (thrown + json)" where
  "detokenize config fetch_impl tokens =
     fetchJson config fetch_impl ''/detokenize'' (post (JObj [(''tokens'', JArr (map JNum tokens))]))"

definition applyTemplate ::
  "Config \<Rightarrow> fetch \<Rightarrow> ChatMessage list \<Rightarrow> net_event list \<times> (thrown + json)" where
  "applyTemplate config fetch_impl messages =
     fetchJson config fetch_impl ''/apply-template''
       (post (JObj [(''messages'', json_messages messages)]))"

definition complete ::
  "Config \<Rightarrow> fetch \<Rightarrow> string \<Rightarrow> CompletionOptions option \<Rightarrow> net_event list \<times> (thrown + json)" where
  "complete config fetch_impl prompt options =
     fetchJson config fetch_impl ''/completion''
       (post (JObj
          [(''prompt'', JStr prompt),
           (''n_predict'', JNum (nullish_or (opt_field options CompletionOptions.max_tokens) 256)),
           (''temperature'', JNum (nullish_or (opt_field options CompletionOptions.temperature) 0.7)),
           (''top_p'', JNum (nullish_or (opt_field options CompletionOptions.top_p) 0.9)),
           (''top_k'', JNum (nullish_or (opt_field options CompletionOptions.top_k) 40)),
           (''stop'', json_opt json_strings (opt_field options CompletionOptions.stop)),
           (''seed'', json_opt JNum (opt_field options CompletionOptions.seed))]))"

definition chat ::
  "Config \<Rightarrow> fetch \<Rightarrow> ChatMessage list \<Rightarrow> ChatOptions option \<Rightarrow> net_event list \<times> (thrown + json)" where
  "chat config fetch_impl messages options =
     fetchJson config fetch_impl ''/v1/chat/completions''
       (post (JObj
          [(''messages'', json_messages messages),
           (''max_tokens'', JNum (nullish_or (opt_field options ChatOptions.max_tokens) 256)),
           (''temperature'', JNum (nullish_or (opt_field options ChatOptions.temperature) 0.7)),
           (''top_p'', JNum (nullish_or (opt_field options ChatOptions.top_p) 0.9)),
           (''stop'', json_opt json_strings (opt_field options ChatOptions.stop)),
           (''seed'', json_opt JNum (opt_field options ChatOptions.seed))]))"

definition embed :: "Config \<Rightarrow> fetch \<Rightarrow> string \<Rightarrow> net_event list \<times> (thrown + json)" where
  "embed config fetch_impl text_content =
     fetchJson config fetch_impl ''/embedding'' (post (JObj [(''content'', JStr text_content)]))"

definition infill ::
  "Config \<Rightarrow> fetch \<Rightarrow> string \<Rightarrow> string \<Rightarrow> InfillOptions option
     \<Rightarrow> net_event list \<times> (thrown + json)" where
  "infill config fetch_impl prefix_text suffix_text options =
     fetchJson config fetch_impl ''/infill''
       (post (JObj
          [(''input_prefix'', JStr prefix_text),
           (''input_suffix'', JStr suffix_text),
           (''n_predict'', JNum (nullish_or (opt_field options InfillOptions.max_tokens) 256)),
           (''temperature'', JNum (nullish_or (opt_field options InfillOptions.temperature) 0.7)),
           (''stop'', json_opt json_strings (opt_field options InfillOptions.stop))]))"

definition rerank ::
  "Config \<Rightarrow> fetch \<Rightarrow> string \<Rightarrow> string list \<Rightarrow> net_event list \<times> (thrown + json)" where
  "rerank config fetch_impl query documents =
     fetchJson config fetch_impl ''/reranking''
       (post (JObj [(''query'', JStr query), (''documents'', json_strings documents)]))"

text \<open>\<open>await fetchJson<void>(...)\<close> and nothing returned: the parsed value is dropped.\<close>

definition discard :: "net_event list \<times> (thrown + 'a) \<Rightarrow> net_event list \<times> (thrown + unit)" where
  "discard r = (fst r, case snd r of Inl e \<Rightarrow> Inl e | Inr v \<Rightarrow> Inr ())"

definition loadModel :: "Config \<Rightarrow> fetch \<Rightarrow> string \<Rightarrow> net_event list \<times> (thrown + unit)" where
  "loadModel config fetch_impl model_name =
     discard (fetchJson config fetch_impl ''/models/load'' (post (JObj [(''model'', JStr model_name)])))"

definition unloadModel :: "Config \<Rightarrow> fetch \<Rightarrow> string \<Rightarrow> net_event list \<times> (thrown + unit)" where
  "unloadModel config fetch_impl model_name =
     discard (fetchJson config fetch_impl ''/models/unload'' (post (JObj [(''model'', JStr model_name)])))"

definition loraList :: "Config \<Rightarrow> fetch \<Rightarrow> net_event list \<times> (thrown + json)" where
  "loraList config fetch_impl = fetchJson config fetch_impl ''/lora-adapters'' None"

definition loraSet ::
  "Config \<Rightarrow> fetch \<Rightarrow> LoraAdapterUpdate list \<Rightarrow> net_event list \<times> (thrown + json)" where
  "loraSet config fetch_impl adapters =
     fetchJson config fetch_impl ''/lora-adapters'' (post (JArr (map json_adapter adapters)))"

subsection \<open>The client as a closed set of calls\<close>

text \<open>
  One constructor per method of the \<open>LlamaClient\<close> interface, with the method's
  arguments, so that a statement can range over every method.
\<close>

datatype client_call =
    Call_health
  | Call_props "json option"
  | Call_models
  | Call_slots
  | Call_metrics
  | Call_tokenize string "TokenizeOptions option"
  | Call_detokenize "real list"
  | Call_applyTemplate "ChatMessage list"
  | Call_complete string "CompletionOptions option"
  | Call_chat "ChatMessage list" "ChatOptions option"
  | Call_embed string
  | Call_infill string string "InfillOptions option"
  | Call_rerank string "string list"
  | Call_loadModel string
  | Call_unloadModel string
  | Call_loraList
  | Call_loraSet "LoraAdapterUpdate list"

datatype reply = Parsed json | Raw resp_body | No_value

definition replying ::
  "('a \<Rightarrow> reply) \<Rightarrow> net_event list \<times> (thrown + 'a) \<Rightarrow> net_event list \<times> (thrown + reply)" where
  "replying f r = (fst r, case snd r of Inl e \<Rightarrow> Inl e | Inr v \<Rightarrow> Inr (f v))"

fun invoke :: "Config \<Rightarrow> fetch \<Rightarrow> client_call \<Rightarrow> net_event list \<times> (thrown + reply)" where
  "invoke c f Call_health = replying Parsed (health c f)"
| "invoke c f (Call_props settings) = replying Parsed (props c f settings)"
| "invoke c f Call_models = replying Parsed (models c f)"
| "invoke c f Call_slots = replying Parsed (slots c f)"
| "invoke c f Call_metrics = replying Raw (metrics c f)"
| "invoke c f (Call_tokenize t options) = replying Parsed (tokenize c f t options)"
| "invoke c f (Call_detokenize tokens) = replying Parsed (detokenize c f tokens)"
| "invoke c f (Call_applyTemplate messages) = replying Parsed (applyTemplate c f messages)"
| "invoke c f (Call_complete prompt options) = replying Parsed (complete c f prompt options)"
| "invoke c f (Call_chat messages options) = replying Parsed (chat c f messages options)"
| "invoke c f (Call_embed t) = replying Parsed (embed c f t)"
| "invoke c f (Call_infill p s options) = replying Parsed (infill c f p s options)"
| "invoke c f (Call_rerank query documents) = replying Parsed (rerank c f query documents)"
| "invoke c f (Call_loadModel m) = replying (\<lambda>u. No_value) (loadModel c f m)"
| "invoke c f (Call_unloadModel m) = replying (\<lambda>u. No_value) (unloadModel c f m)"
| "invoke c f Call_loraList = replying Parsed (loraList c f)"
| "invoke c f (Call_loraSet adapters) = replying Parsed (loraSet c f adapters)"

fun requests :: "net_event list \<Rightarrow> Request list" where
  "requests [] = []"
| "requests (Fetch r # es) = r # requests es"
| "requests (e # es) = requests es"

section \<open>Properties and example inputs\<close>

definition state_invariant :: "ProcessState \<Rightarrow> bool" where
  "state_invariant st = (process st \<noteq> None \<longleftrightarrow> pid st \<noteq> None)"

definition returns_ok :: "thrown + HealthResponse \<Rightarrow> bool" where
  "returns_ok r = (case r of Inl e \<Rightarrow> False | Inr h \<Rightarrow> status h = ''ok'')"

definition reports_error :: "nat \<Rightarrow> thrown + HealthResponse" where
  "reports_error i = Inr \<lparr>status = ''error'', slots_idle = 0, slots_processing = 0\<rparr>"

definition refused :: "nat \<Rightarrow> thrown + HealthResponse" where
  "refused i = Inl (Error ''connect ECONNREFUSED 127.0.0.1:8080'')"

definition healthy :: "nat \<Rightarrow> thrown + HealthResponse" where
  "healthy i = Inr \<lparr>status = ''ok'', slots_idle = 2, slots_processing = 0\<rparr>"

definition example_config :: Config where
  "example_config =
     \<lparr>serverUrl = ''http://localhost:8080'', timeout = 30000, modelPath = None,
      serverPath = ''/usr/bin/llama-server''\<rparr>"

definition example_input :: StartInput where
  "example_input =
     \<lparr>model = ''/m.gguf'', port = Some 8080, ctx_size = Some 2048, n_gpu_layers = Some (- 1),
      threads = None\<rparr>"

definition child_A :: ChildProcess where
  "child_A = \<lparr>obj_id = 1, child_pid = Some 12345\<rparr>"

definition child_B :: ChildProcess where
  "child_B = \<lparr>obj_id = 2, child_pid = Some 12346\<rparr>"

definition running_A :: ProcessState where
  "running_A = \<lparr>process = Some child_A, pid = Some 12345\<rparr>"

definition start_env_of :: "ChildProcess \<Rightarrow> (nat \<Rightarrow> thrown + HealthResponse) \<Rightarrow> thrown option \<Rightarrow> start_env" where
  "start_env_of c h k =
     \<lparr>parse_result = Inr example_input, spawn_result = Inr c, health_result = h,
      exit_while_polling = False, kill_result = k\<rparr>"

definition stale_exit_scenario :: "operation list" where
  "stale_exit_scenario =
     [Start example_config (start_env_of child_A healthy None),
      Stop None,
      Start example_config (start_env_of child_B healthy None),
      Child_exit (obj_id child_A)]"

definition no_overrides :: CompletionOptions where
  "no_overrides =
     \<lparr>CompletionOptions.max_tokens = None, CompletionOptions.temperature = None,
      CompletionOptions.top_p = None, CompletionOptions.top_k = None,
      CompletionOptions.stop = None, CompletionOptions.seed = None\<rparr>"

text \<open>The value sent under \<open>name\<close> in the body object of the one request of a call.\<close>

definition sent_field :: "net_event list \<Rightarrow> string \<Rightarrow> json option" where
  "sent_field es name =
     (case requests es of
        [r] \<Rightarrow> (case body (init r) of Some (JObj members) \<Rightarrow> map_of members name | _ \<Rightarrow> None)
      | _ \<Rightarrow> None)"

definition unavailable :: Response where
  "unavailable = \<lparr>http_status = 503, statusText = ''Service Unavailable'', sent_body = No_body\<rparr>"

definition answers_unavailable :: fetch where
  "answers_unavailable request = Inr unavailable"

definition empty_ok :: Response where
  "empty_ok = \<lparr>http_status = 200, statusText = ''OK'', sent_body = No_body\<rparr>"

definition answers_empty_ok :: fetch where
  "answers_empty_ok request = Inr empty_ok"

definition success_ok :: Response where
  "success_ok =
     \<lparr>http_status = 200, statusText = ''OK'', sent_body = Json_doc (JObj [(''success'', JBool True)])\<rparr>"

definition answers_success :: fetch where
  "answers_success request = Inr success_ok"

section \<open>The polling loop\<close>

text \<open>
  The loop returns \<open>false\<close> when none of the attempts it can make resolves to status
  \<open>ok\<close>. The induction is on the number of attempts left.
\<close>

lemma waitForHealth_from_no_ok:
  "(\<And>j. i \<le> j \<Longrightarrow> j < maxAttempts \<Longrightarrow> \<not> returns_ok (probe j))
   \<Longrightarrow> snd (waitForHealth_from probe maxAttempts delayMs i) = False"
proof (induction n \<equiv> "maxAttempts - i" arbitrary: i)
  case 0
  then show ?case by (simp add: waitForHealth_from.simps)
next
  case (Suc n)
  then have less: "i < maxAttempts" and n: "n = maxAttempts - Suc i" by simp_all
  have nok: "\<not> returns_ok (probe i)" using Suc.prems less by simp
  have rest: "snd (waitForHealth_from probe maxAttempts delayMs (Suc i)) = False"
    using Suc.hyps(1)[OF n] Suc.prems by simp
  show ?case
    using less nok rest
    by (subst waitForHealth_from.simps)
       (auto simp: after_effects_def returns_ok_def split: sum.splits)
qed

lemma waitForHealth_no_ok:
  "\<forall>i<maxAttempts. \<not> returns_ok (probe i) \<Longrightarrow> snd (waitForHealth probe maxAttempts delayMs) = False"
  unfolding waitForHealth_def by (rule waitForHealth_from_no_ok) simp

text \<open>
  A response whose status is neither \<open>ok\<close> nor \<open>loading_model\<close> leaves the \<open>try\<close>
  block without a pause: the next iteration calls \<open>health\<close> at once.
\<close>

lemma waitForHealth_from_error_status:
  "waitForHealth_from reports_error maxAttempts delayMs i = (replicate (maxAttempts - i) Health_call, False)"
proof (induction n \<equiv> "maxAttempts - i" arbitrary: i)
  case 0
  then show ?case by (simp add: waitForHealth_from.simps)
next
  case (Suc n)
  then have less: "i < maxAttempts" and n: "n = maxAttempts - Suc i" by simp_all
  have count: "maxAttempts - i = Suc (maxAttempts - Suc i)" using less by simp
  show ?case
    using less Suc.hyps(1)[OF n] count
    by (subst waitForHealth_from.simps) (simp add: after_effects_def reports_error_def)
qed

text \<open>
  Claim C2: the loop calls \<open>health\<close> at most 30 times, pauses one second between any two
  consecutive calls, whether the earlier one returned a not-ready status or threw, and
  ends early only on status \<open>ok\<close>. The code misses the pause on one path: when every
  call resolves to status \<open>error\<close> (a value of \<open>HealthResponse\<close>), the loop makes its
  30 calls back to back, with no pause anywhere, and returns \<open>false\<close>.
\<close>

theorem error_status_polls_without_pause:
  "waitForHealth reports_error 30 1000 = (replicate 30 Health_call, False)"
  by (simp add: waitForHealth_def waitForHealth_from_error_status)

text \<open>
  The bound of the claim that does hold: from iteration \<open>i\<close> on, at most
  \<open>maxAttempts - i\<close> calls of \<open>health\<close> are made.
\<close>

lemma health_calls_bounded:
  "length (filter (\<lambda>e. e = Health_call) (fst (waitForHealth_from probe maxAttempts delayMs i)))
     \<le> maxAttempts - i"
proof (induction n \<equiv> "maxAttempts - i" arbitrary: i)
  case 0
  then show ?case by (simp add: waitForHealth_from.simps)
next
  case (Suc n)
  then have less: "i < maxAttempts" and n: "n = maxAttempts - Suc i" by simp_all
  show ?case
    using less Suc.hyps(1)[OF n]
    by (subst waitForHealth_from.simps) (auto simp: after_effects_def split: sum.splits)
qed


section \<open>The process tools\<close>

lemma includes_middle: "str_includes (a @ sub @ b) sub"
  by (simp add: str_includes_def)

lemma start_spawned_invariant:
  "child_pid c \<noteq> None \<Longrightarrow> state_invariant (state_after (start_spawned env parsed sp c))"
  by (auto simp: start_spawned_def Let_def state_invariant_def exit_handler_def split: option.splits)

lemma start_handler_invariant:
  "state_invariant st \<Longrightarrow> state_invariant (state_after (start_handler config env st))"
  using start_spawned_invariant
  by (auto simp: start_handler_def Let_def split: sum.splits option.splits)

lemma stop_handler_invariant:
  "state_invariant st \<Longrightarrow> state_invariant (state_after (stop_handler kill_outcome st))"
  by (auto simp: stop_handler_def state_invariant_def split: option.splits)

lemma exit_handler_invariant: "state_invariant (exit_handler st)"
  by (simp add: exit_handler_def state_invariant_def)

text \<open>
  The invariant holds in the initial state, so it holds in every state that a sequence
  of start calls, stop calls and exit events reaches.
\<close>

lemma step_invariant:
  "state_invariant (proc_state s) \<Longrightarrow> state_invariant (proc_state (step s op))"
  by (cases op)
     (simp_all add: Let_def start_handler_invariant stop_handler_invariant
       exit_handler_invariant)

lemma reachable_invariant:
  "state_invariant (proc_state s) \<Longrightarrow> state_invariant (proc_state (foldl step s ops))"
  by (induction ops arbitrary: s) (simp_all add: step_invariant)

lemma initial_invariant: "state_invariant (proc_state initial_system)"
  by (simp add: initial_system_def createProcessState_def state_invariant_def)

text \<open>
  Claim C1: for start, stop and the child-exit notification, if the process handle is
  non-null exactly when the pid is non-null before the operation, then the same holds
  after it, on the success and on the error paths.
\<close>

theorem process_state_invariant:
  assumes "state_invariant st"
  shows "state_invariant (state_after (start_handler config env st))
       \<and> state_invariant (state_after (stop_handler kill_outcome st))
       \<and> state_invariant (exit_handler st)"
  using assms
  by (simp add: start_handler_invariant stop_handler_invariant exit_handler_invariant)

text \<open>
  The invariant at a running state, and after each of the three operations there.
\<close>

theorem process_state_invariant_witness:
  "state_invariant running_A
   \<and> state_invariant (state_after (start_handler example_config (start_env_of child_B refused None) running_A))
   \<and> state_invariant (state_after (stop_handler None running_A))
   \<and> state_invariant (exit_handler running_A)"
proof -
  have h: "state_invariant running_A" by (simp add: state_invariant_def running_A_def)
  show ?thesis
    using h process_state_invariant [OF h, of example_config "start_env_of child_B refused None" None]
    by simp
qed

text \<open>
  Claim C4: when start is called with validated arguments while the state holds a
  handle and a pid, it returns an error result whose one text item contains "already
  running" and the decimal pid, performs no effect at all (so no spawn), and leaves the
  state as it was.
\<close>

theorem start_while_running:
  assumes "parse_result env = Inr parsed"
      and "process st = Some running"
      and "pid st = Some p"
  shows "start_handler config env st =
           \<lparr>returned = error_result (already_running_text p), state_after = st, effects = []\<rparr>
       \<and> returned (start_handler config env st) =
           \<lparr>ToolResult.content =
              [Plain (''Error: llama-server is already running with PID '' @ string_of_nat p
                        @ ''. Use llama_stop first.'')],
            isError = Some True\<rparr>
       \<and> ToolResult.content (returned (start_handler config env st)) =
           [Plain (already_running_text p)]
       \<and> isError (returned (start_handler config env st)) = Some True
       \<and> effects (start_handler config env st) = []
       \<and> state_after (start_handler config env st) = st
       \<and> isError (error_result (already_running_text p)) = Some True
       \<and> str_includes (already_running_text p) ''already running''
       \<and> str_includes (already_running_text p) (string_of_nat p)
       \<and> str_includes
            (''Error: llama-server is already running with PID '' @ string_of_nat p
               @ ''. Use llama_stop first.'')
            ''already running''
       \<and> str_includes
            (''Error: llama-server is already running with PID '' @ string_of_nat p
               @ ''. Use llama_stop first.'')
            (string_of_nat p)"
proof -
  have t: "already_running_text p =
          ''Error: llama-server is already running with PID '' @ string_of_nat p
            @ ''. Use llama_stop first.''"
    by (simp add: already_running_text_def)
  have "already_running_text p =
          ''Error: llama-server is '' @ ''already running''
            @ ('' with PID '' @ string_of_nat p @ ''. Use llama_stop first.'')"
    by (simp add: already_running_text_def)
  then have a: "str_includes (already_running_text p) ''already running''"
    using includes_middle by metis
  have b: "str_includes (already_running_text p) (string_of_nat p)"
    unfolding already_running_text_def by (rule includes_middle)
  have run: "start_handler config env st =
      \<lparr>returned = \<lparr>ToolResult.content = [Plain (already_running_text p)], isError = Some True\<rparr>,
       state_after = st, effects = []\<rparr>"
    using assms by (simp add: start_handler_def error_result_def)
  have e: "error_result (already_running_text p) =
      \<lparr>ToolResult.content = [Plain (already_running_text p)], isError = Some True\<rparr>"
    by (simp add: error_result_def)
  show ?thesis
    unfolding t [symmetric] using a b by (simp add: run e)
qed

text \<open>
  Scenario 4 of the specification, with pid 12345.
\<close>

theorem start_while_running_witness:
  "parse_result (start_env_of child_B healthy None) = Inr example_input
   \<and> process running_A = Some child_A \<and> pid running_A = Some 12345
   \<and> returned (start_handler example_config (start_env_of child_B healthy None) running_A) =
       \<lparr>ToolResult.content =
          [Plain ''Error: llama-server is already running with PID 12345. Use llama_stop first.''],
        isError = Some True\<rparr>
   \<and> state_after (start_handler example_config (start_env_of child_B healthy None) running_A)
       = running_A
   \<and> effects (start_handler example_config (start_env_of child_B healthy None) running_A) = []
   \<and> str_includes
        ''Error: llama-server is already running with PID 12345. Use llama_stop first.''
        ''already running''
   \<and> str_includes
        ''Error: llama-server is already running with PID 12345. Use llama_stop first.''
        ''12345''"
proof -
  have p: "parse_result (start_env_of child_B healthy None) = Inr example_input"
    by (simp add: start_env_of_def)
  have r: "process running_A = Some child_A" and i: "pid running_A = Some 12345"
    by (simp_all add: running_A_def)
  have s: "string_of_nat 12345 = ''12345''"
    by (simp add: string_of_nat.simps digit_char_def)
  show ?thesis
    using p r i start_while_running [OF p r i, of example_config]
    by (simp add: s error_result_def already_running_text_def)
qed

text \<open>
  Claim C3, amended: if start spawns a child with a process id and none of the 30 health
  attempts resolves to status \<open>ok\<close>, then start sends SIGTERM to that child (its last
  effect); and when sending the signal does not throw, it leaves the state Stopped and
  returns an error result whose one text item contains "did not become healthy".
\<close>

theorem start_unhealthy_rolls_back:
  assumes "parse_result env = Inr parsed"
      and "process st = None \<or> pid st = None"
      and "spawn_result env = Inr child"
      and "child_pid child = Some p" and "p \<noteq> 0"
      and "\<forall>i<30. \<not> returns_ok (health_result env i)"
  shows "hd (effects (start_handler config env st)) = Spawn (serverPath config) (start_args parsed)
       \<and> last (effects (start_handler config env st)) = Kill (obj_id child) ''SIGTERM''
       \<and> (kill_result env = None \<longrightarrow>
            returned (start_handler config env st) =
              \<lparr>ToolResult.content =
                 [Plain ''Error: llama-server started but did not become healthy within 30 seconds. Check model path and server logs.''],
               isError = Some True\<rparr>
          \<and> returned (start_handler config env st) = error_result not_healthy_text
          \<and> state_after (start_handler config env st) = createProcessState
          \<and> process (state_after (start_handler config env st)) = None
          \<and> pid (state_after (start_handler config env st)) = None)
       \<and> str_includes
            ''Error: llama-server started but did not become healthy within 30 seconds. Check model path and server logs.''
            ''did not become healthy''
       \<and> str_includes not_healthy_text ''did not become healthy''"
proof -
  have unhealthy: "snd (waitForHealth (health_result env) 30 1000) = False"
    using assms(6) by (rule waitForHealth_no_ok)
  have spawned: "start_handler config env st =
      start_spawned env parsed (Spawn (serverPath config) (start_args parsed)) child"
    using assms(1-5) by (auto simp: start_handler_def Let_def split: option.splits)
  have inc: "str_includes not_healthy_text ''did not become healthy''"
    by (simp add: not_healthy_text_def str_includes_def sublist_code)
  have sent: "hd (effects (start_handler config env st)) = Spawn (serverPath config) (start_args parsed)
      \<and> last (effects (start_handler config env st)) = Kill (obj_id child) ''SIGTERM''"
    using unhealthy
    by (cases "kill_result env") (simp_all add: spawned start_spawned_def Let_def)
  have cleared: "kill_result env = None \<Longrightarrow>
      returned (start_handler config env st) =
        \<lparr>ToolResult.content = [Plain not_healthy_text], isError = Some True\<rparr>
      \<and> state_after (start_handler config env st) = \<lparr>process = None, pid = None\<rparr>"
    using unhealthy
    by (simp add: spawned start_spawned_def Let_def exit_handler_def error_result_def)
  show ?thesis
    using sent cleared inc
    by (auto simp: createProcessState_def error_result_def not_healthy_text_def)
qed

lemma refused_never_ok: "\<forall>i<30. \<not> returns_ok (refused i)"
  by (simp add: refused_def returns_ok_def)

text \<open>
  A server that refuses every connection: the hypotheses hold and the rollback happens.
\<close>

theorem start_unhealthy_rolls_back_witness:
  "parse_result (start_env_of child_A refused None) = Inr example_input
   \<and> (process createProcessState = None \<or> pid createProcessState = None)
   \<and> spawn_result (start_env_of child_A refused None) = Inr child_A
   \<and> child_pid child_A = Some 12345 \<and> (12345::nat) \<noteq> 0
   \<and> \<not> returns_ok (health_result (start_env_of child_A refused None) 0)
   \<and> \<not> returns_ok (health_result (start_env_of child_A refused None) 29)
   \<and> kill_result (start_env_of child_A refused None) = None
   \<and> returned (start_handler example_config (start_env_of child_A refused None) createProcessState)
       = \<lparr>ToolResult.content =
            [Plain ''Error: llama-server started but did not become healthy within 30 seconds. Check model path and server logs.''],
          isError = Some True\<rparr>
   \<and> state_after (start_handler example_config (start_env_of child_A refused None) createProcessState)
       = \<lparr>process = None, pid = None\<rparr>
   \<and> last (effects (start_handler example_config (start_env_of child_A refused None) createProcessState))
       = Kill 1 ''SIGTERM''"
proof -
  let ?env = "start_env_of child_A refused None"
  have a1: "parse_result ?env = Inr example_input" by (simp add: start_env_of_def)
  have a2: "process createProcessState = None \<or> pid createProcessState = None"
    by (simp add: createProcessState_def)
  have a3: "spawn_result ?env = Inr child_A" by (simp add: start_env_of_def)
  have a4: "child_pid child_A = Some 12345" by (simp add: child_A_def)
  have a5: "(12345::nat) \<noteq> 0" by simp
  have a6: "\<forall>i<30. \<not> returns_ok (health_result ?env i)"
    using refused_never_ok by (simp add: start_env_of_def)
  have a7: "kill_result ?env = None" by (simp add: start_env_of_def)
  have o: "obj_id child_A = 1" by (simp add: child_A_def)
  have c: "createProcessState = \<lparr>process = None, pid = None\<rparr>"
    by (simp add: createProcessState_def)
  show ?thesis
    using a1 a2 a3 a4 a5 a6 [rule_format, of 0] a6 [rule_format, of 29] a7
      start_unhealthy_rolls_back [OF a1 a2 a3 a4 a5 a6, of example_config]
    by (simp add: o c [symmetric])
qed

text \<open>
  Claim C3 as stated fails when \<open>serverProcess.kill\<close> throws: the \<open>catch\<close> block takes
  over, the two assignments that clear the state are skipped, and the text is that of the
  thrown error.
\<close>

theorem start_kill_raises_counterexample:
  "hd (effects (start_handler example_config
          (start_env_of child_A refused (Some (Error ''kill EPERM''))) createProcessState))
     = Spawn ''/usr/bin/llama-server'' (start_args example_input)
   \<and> snd (waitForHealth refused 30 1000) = False
   \<and> last (effects (start_handler example_config
          (start_env_of child_A refused (Some (Error ''kill EPERM''))) createProcessState))
     = Kill 1 ''SIGTERM''
   \<and> state_after (start_handler example_config
          (start_env_of child_A refused (Some (Error ''kill EPERM''))) createProcessState)
     = \<lparr>process = Some child_A, pid = Some 12345\<rparr>
   \<and> state_after (start_handler example_config
          (start_env_of child_A refused (Some (Error ''kill EPERM''))) createProcessState)
     \<noteq> createProcessState
   \<and> returned (start_handler example_config
          (start_env_of child_A refused (Some (Error ''kill EPERM''))) createProcessState)
     = \<lparr>ToolResult.content = [Plain ''Error: kill EPERM''], isError = Some True\<rparr>
   \<and> \<not> str_includes ''Error: kill EPERM'' ''did not become healthy''"
proof -
  have unhealthy: "snd (waitForHealth refused 30 1000) = False"
    using refused_never_ok by (rule waitForHealth_no_ok)
  have run: "start_handler example_config
          (start_env_of child_A refused (Some (Error ''kill EPERM''))) createProcessState
      = \<lparr>returned = \<lparr>ToolResult.content = [Plain ''Error: kill EPERM''], isError = Some True\<rparr>,
         state_after = \<lparr>process = Some child_A, pid = Some 12345\<rparr>,
         effects = [Spawn ''/usr/bin/llama-server'' (start_args example_input), On_exit 1]
           @ fst (waitForHealth refused 30 1000) @ [Kill 1 ''SIGTERM'']\<rparr>"
    using unhealthy
    by (simp add: start_handler_def start_spawned_def start_env_of_def createProcessState_def
        child_A_def example_config_def Let_def catch_result_def error_result_def)
  have no: "\<not> str_includes ''Error: kill EPERM'' ''did not become healthy''"
    by (simp add: str_includes_def sublist_code)
  show ?thesis
    unfolding run using unhealthy no by (simp add: createProcessState_def)
qed

text \<open>
  Claim C7: when stop is called in a running state and \<open>kill\<close> throws, the result is an
  error result whose one text item is "Error: " followed by the thrown message, and the
  state is the one before the call; when \<open>kill\<close> returns, the state is cleared and the
  result is the descriptor with status "stopped" and the pid read before the clearing;
  the state changes only when \<open>kill\<close> did not throw.
\<close>

theorem stop_signal_failure_keeps_state:
  assumes "process st = Some running" and "pid st = Some p"
  shows "stop_handler (Some e) st =
           \<lparr>returned = catch_result e, state_after = st,
            effects = [Kill (obj_id running) ''SIGTERM'']\<rparr>
       \<and> catch_result e = error_result (''Error: '' @ error_message e)
       \<and> isError (catch_result e) = Some True
       \<and> stop_handler None st =
           \<lparr>returned = stopped_result p, state_after = createProcessState,
            effects = [Kill (obj_id running) ''SIGTERM'']\<rparr>
       \<and> (state_after (stop_handler kill_outcome st) \<noteq> st \<longrightarrow> kill_outcome = None)
       \<and> returned (stop_handler (Some (Error m)) st) =
           \<lparr>ToolResult.content = [Plain (''Error: '' @ m)], isError = Some True\<rparr>
       \<and> returned (stop_handler (Some (Non_error m)) st) =
           \<lparr>ToolResult.content = [Plain (''Error: '' @ m)], isError = Some True\<rparr>
       \<and> state_after (stop_handler (Some e) st) = st
       \<and> process (state_after (stop_handler (Some e) st)) = Some running
       \<and> pid (state_after (stop_handler (Some e) st)) = Some p
       \<and> effects (stop_handler kill_outcome st) = [Kill (obj_id running) ''SIGTERM'']
       \<and> returned (stop_handler None st) =
           \<lparr>ToolResult.content =
              [Stringified (JObj [(''status'', JStr ''stopped''), (''pid'', JNum (of_nat p))])],
            isError = None\<rparr>
       \<and> state_after (stop_handler None st) = \<lparr>process = None, pid = None\<rparr>"
  using assms
  by (cases kill_outcome)
     (simp_all add: stop_handler_def catch_result_def error_result_def createProcessState_def
       stopped_result_def)

text \<open>
  The test "handles kill throwing an error", and the successful stop, at pid 12345.
\<close>

theorem stop_signal_failure_keeps_state_witness:
  "process running_A = Some child_A \<and> pid running_A = Some 12345
   \<and> returned (stop_handler (Some (Error ''ESRCH: process already exited'')) running_A) =
       \<lparr>ToolResult.content = [Plain ''Error: ESRCH: process already exited''],
        isError = Some True\<rparr>
   \<and> state_after (stop_handler (Some (Error ''ESRCH: process already exited'')) running_A)
       = running_A
   \<and> effects (stop_handler (Some (Error ''ESRCH: process already exited'')) running_A)
       = [Kill 1 ''SIGTERM'']
   \<and> returned (stop_handler None running_A) =
       \<lparr>ToolResult.content =
          [Stringified (JObj [(''status'', JStr ''stopped''), (''pid'', JNum 12345)])],
        isError = None\<rparr>
   \<and> state_after (stop_handler None running_A) = \<lparr>process = None, pid = None\<rparr>
   \<and> state_after (stop_handler None running_A) \<noteq> running_A"
proof -
  have r: "process running_A = Some child_A" and i: "pid running_A = Some 12345"
    by (simp_all add: running_A_def)
  have o: "obj_id child_A = 1" by (simp add: child_A_def)
  have d: "\<lparr>process = None, pid = None\<rparr> \<noteq> running_A"
    by (simp add: running_A_def)
  show ?thesis
    using r i d
      stop_signal_failure_keeps_state
        [OF r i, where e = "Error ''ESRCH: process already exited''"
           and m = "''ESRCH: process already exited''" and kill_outcome = None]
    by (simp add: o error_result_def stopped_result_def createProcessState_def catch_result_def)
qed

text \<open>
  A start whose first health call resolves to \<open>ok\<close>, from the Stopped state.
\<close>

lemma healthy_first_poll: "waitForHealth healthy 30 1000 = ([Health_call], True)"
  by (simp add: waitForHealth_def waitForHealth_from.simps healthy_def)

lemma start_healthy_from_stopped:
  "child_pid c = Some p \<Longrightarrow> p \<noteq> 0 \<Longrightarrow>
   start_handler example_config (start_env_of c healthy None) createProcessState =
     \<lparr>returned = started_result \<lparr>process = Some c, pid = Some p\<rparr> example_input,
      state_after = \<lparr>process = Some c, pid = Some p\<rparr>,
      effects = [Spawn (serverPath example_config) (start_args example_input),
                 On_exit (obj_id c), Health_call]\<rparr>"
  by (simp add: start_handler_def start_spawned_def start_env_of_def createProcessState_def
      Let_def healthy_first_poll)

text \<open>
  Claim C10: the exit handler clears the state whatever it holds. In the sequence start A,
  stop A, start B, exit event of A, the state holds the handle and pid of B after the
  third step, and is Stopped after the fourth, although nothing stopped B.
\<close>

theorem stale_exit_clears_newer_process:
  "exit_handler st = createProcessState
   \<and> proc_state (foldl step initial_system (take 1 stale_exit_scenario))
       = \<lparr>process = Some child_A, pid = Some 12345\<rparr>
   \<and> proc_state (foldl step initial_system (take 2 stale_exit_scenario)) = createProcessState
   \<and> proc_state (foldl step initial_system (take 3 stale_exit_scenario))
       = \<lparr>process = Some child_B, pid = Some 12346\<rparr>
   \<and> proc_state (foldl step initial_system stale_exit_scenario) = createProcessState"
proof -
  have a: "child_pid child_A = Some 12345" and b: "child_pid child_B = Some 12346"
    by (simp_all add: child_A_def child_B_def)
  have s1: "step initial_system (Start example_config (start_env_of child_A healthy None))
      = \<lparr>proc_state = \<lparr>process = Some child_A, pid = Some 12345\<rparr>, exit_listeners = [obj_id child_A]\<rparr>"
    using start_healthy_from_stopped [OF a] by (simp add: initial_system_def)
  have s2: "step \<lparr>proc_state = \<lparr>process = Some child_A, pid = Some 12345\<rparr>, exit_listeners = [obj_id child_A]\<rparr>
               (Stop None)
      = \<lparr>proc_state = createProcessState, exit_listeners = [obj_id child_A]\<rparr>"
    by (simp add: stop_handler_def createProcessState_def)
  have s3: "step \<lparr>proc_state = createProcessState, exit_listeners = [obj_id child_A]\<rparr>
               (Start example_config (start_env_of child_B healthy None))
      = \<lparr>proc_state = \<lparr>process = Some child_B, pid = Some 12346\<rparr>, exit_listeners = [obj_id child_A, obj_id child_B]\<rparr>"
    using start_healthy_from_stopped [OF b] by simp
  have s4: "step \<lparr>proc_state = \<lparr>process = Some child_B, pid = Some 12346\<rparr>, exit_listeners = [obj_id child_A, obj_id child_B]\<rparr>
               (Child_exit (obj_id child_A))
      = \<lparr>proc_state = createProcessState, exit_listeners = [obj_id child_A, obj_id child_B]\<rparr>"
    by (simp add: exit_handler_def createProcessState_def)
  have e: "exit_handler st = createProcessState"
    by (simp add: exit_handler_def createProcessState_def)
  show ?thesis
    by (simp add: e stale_exit_scenario_def s1 s2 s3 s4 del: step.simps)
qed

section \<open>The client\<close>

text \<open>
  Claim C5: \<open>complete(prompt)\<close> without options, or with options that set nothing, makes
  exactly one \<open>fetch\<close> call; the object serialised as its body holds the prompt, 256 under
  \<open>n_predict\<close>, 0.7, 0.9 and 40 under \<open>temperature\<close>, \<open>top_p\<close> and \<open>top_k\<close>, and
  \<open>undefined\<close> under \<open>stop\<close> and \<open>seed\<close>.
\<close>

theorem complete_without_overrides:
  "fst (complete config fetch_impl prompt None) =
     [Set_timeout (timeout config),
      Fetch \<lparr>url = serverUrl config @ ''/completion'',
             init = \<lparr>http_method = Some ''POST'',
                     body = Some (JObj
                       [(''prompt'', JStr prompt),
                        (''n_predict'', JNum 256),
                        (''temperature'', JNum 0.7),
                        (''top_p'', JNum 0.9),
                        (''top_k'', JNum 40),
                        (''stop'', JUndefined),
                        (''seed'', JUndefined)]),
                     headers = Some [(''Content-Type'', ''application/json'')]\<rparr>,
             signal = True\<rparr>,
      Clear_timeout]
   \<and> fst (complete config fetch_impl prompt (Some no_overrides))
       = fst (complete config fetch_impl prompt None)
   \<and> length (requests (fst (complete config fetch_impl prompt None))) = 1"
  by (simp add: complete_def fetchJson_def post_def opt_field_def nullish_or_def json_opt_def
      spread_def no_overrides_def Let_def)

text \<open>
  Claim C6: a temperature the caller supplies is the value sent by \<open>complete\<close>, \<open>chat\<close>
  and \<open>infill\<close>, whatever it is; 0.7 is sent only when the options or their temperature
  are absent.
\<close>

theorem temperature_passed_through:
  "sent_field (fst (complete config fetch_impl prompt
       (Some (copts\<lparr>CompletionOptions.temperature := Some t\<rparr>)))) ''temperature'' = Some (JNum t)
   \<and> sent_field (fst (chat config fetch_impl messages
       (Some (chopts\<lparr>ChatOptions.temperature := Some t\<rparr>)))) ''temperature'' = Some (JNum t)
   \<and> sent_field (fst (infill config fetch_impl pre suf
       (Some (iopts\<lparr>InfillOptions.temperature := Some t\<rparr>)))) ''temperature'' = Some (JNum t)
   \<and> sent_field (fst (complete config fetch_impl prompt
       (Some (copts\<lparr>CompletionOptions.temperature := None\<rparr>)))) ''temperature'' = Some (JNum 0.7)
   \<and> sent_field (fst (chat config fetch_impl messages
       (Some (chopts\<lparr>ChatOptions.temperature := None\<rparr>)))) ''temperature'' = Some (JNum 0.7)
   \<and> sent_field (fst (infill config fetch_impl pre suf
       (Some (iopts\<lparr>InfillOptions.temperature := None\<rparr>)))) ''temperature'' = Some (JNum 0.7)
   \<and> sent_field (fst (complete config fetch_impl prompt None)) ''temperature'' = Some (JNum 0.7)
   \<and> sent_field (fst (chat config fetch_impl messages None)) ''temperature'' = Some (JNum 0.7)
   \<and> sent_field (fst (infill config fetch_impl pre suf None)) ''temperature'' = Some (JNum 0.7)"
  by (simp add: sent_field_def complete_def chat_def infill_def fetchJson_def post_def
      opt_field_def nullish_or_def Let_def)

text \<open>
  A response outside 200..299 makes \<open>fetchJson\<close> throw the HTTP error, after one request.
\<close>

lemma fetchJson_not_ok:
  "fetch_impl = (\<lambda>request. Inr response) \<Longrightarrow> \<not> ok response \<Longrightarrow>
   snd (fetchJson config fetch_impl path options) = Inl (http_error response)"
  by (simp add: fetchJson_def Let_def)

lemma fetchJson_one_request:
  "length (requests (fst (fetchJson config fetch_impl path options))) = 1"
  by (simp add: fetchJson_def Let_def)

lemma http_error_mentions_status:
  "str_includes (error_message (http_error response)) (string_of_nat (http_status response))
   \<and> str_includes (error_message (http_error response)) (statusText response)"
proof -
  have "error_message (http_error response)
        = (''HTTP '' @ string_of_nat (http_status response) @ '': '') @ statusText response @ []"
    by (simp add: http_error_def)
  then have "str_includes (error_message (http_error response)) (statusText response)"
    using includes_middle by metis
  moreover have "str_includes (error_message (http_error response)) (string_of_nat (http_status response))"
    unfolding http_error_def error_message.simps by (rule includes_middle)
  ultimately show ?thesis by simp
qed

text \<open>
  Claim C8: when the server answers with a status outside the 2xx range, every method of
  the client fails with the error \<open>HTTP <status>: <statusText>\<close> thrown by the transport
  function, after exactly one request: nothing is caught and nothing is retried.
\<close>

theorem non_2xx_fails_every_method:
  assumes "\<And>request. fetch_impl request = Inr response"
      and "\<not> ok response"
  shows "snd (invoke config fetch_impl call) = Inl (http_error response)
       \<and> length (requests (fst (invoke config fetch_impl call))) = 1
       \<and> http_error response
           = Error (''HTTP '' @ string_of_nat (http_status response) @ '': '' @ statusText response)
       \<and> str_includes (error_message (http_error response)) (string_of_nat (http_status response))
       \<and> str_includes (error_message (http_error response)) (statusText response)"
proof -
  have f: "fetch_impl = (\<lambda>request. Inr response)" using assms(1) by auto
  have j: "\<And>path options. snd (fetchJson config fetch_impl path options) = Inl (http_error response)"
    using f assms(2) by (rule fetchJson_not_ok)
  have t: "\<And>path. snd (fetchText config fetch_impl path) = Inl (http_error response)"
    using f assms(2) by (simp add: fetchText_def Let_def)
  have t1: "\<And>path. length (requests (fst (fetchText config fetch_impl path))) = 1"
    by (simp add: fetchText_def Let_def)
  have r: "snd (invoke config fetch_impl call) = Inl (http_error response)"
    by (cases call)
       (simp_all add: replying_def discard_def j t health_def props_def models_def slots_def
         metrics_def tokenize_def detokenize_def applyTemplate_def complete_def chat_def
         embed_def infill_def rerank_def loadModel_def unloadModel_def loraList_def loraSet_def
         split: option.splits)
  have n: "length (requests (fst (invoke config fetch_impl call))) = 1"
    by (cases call)
       (simp_all add: replying_def discard_def fetchJson_one_request t1 health_def props_def
         models_def slots_def metrics_def tokenize_def detokenize_def applyTemplate_def
         complete_def chat_def embed_def infill_def rerank_def loadModel_def unloadModel_def
         loraList_def loraSet_def split: option.splits)
  show ?thesis
    using r n http_error_mentions_status by (simp add: http_error_def)
qed

text \<open>A 503 answer to \<open>complete\<close>.\<close>

theorem non_2xx_fails_every_method_witness:
  "\<not> ok unavailable
   \<and> snd (invoke example_config answers_unavailable (Call_complete ''hello'' None))
       = Inl (Error ''HTTP 503: Service Unavailable'')
   \<and> length (requests (fst (invoke example_config answers_unavailable (Call_complete ''hello'' None))))
       = 1"
proof -
  have a: "\<And>request. answers_unavailable request = Inr unavailable"
    by (simp add: answers_unavailable_def)
  have n: "\<not> ok unavailable" by (simp add: ok_def unavailable_def)
  have s: "string_of_nat 503 = ''503''" by (simp add: string_of_nat.simps digit_char_def)
  have e: "http_error unavailable = Error ''HTTP 503: Service Unavailable''"
    by (simp add: http_error_def unavailable_def s)
  show ?thesis
    using n non_2xx_fails_every_method
        [OF a n, where config = example_config and call = "Call_complete ''hello'' None"]
    by (simp add: e)
qed

text \<open>
  Claim C9, amended: \<open>loadModel(model)\<close> and \<open>unloadModel(model)\<close> post \<open>{model}\<close>, and when
  the server answers with a 2xx status and a body that is a JSON document, they resolve
  with no value, the parsed document being dropped.
\<close>

theorem load_model_resolves_on_json_body:
  assumes "\<And>request. fetch_impl request = Inr response"
      and "ok response"
      and "sent_body response = Json_doc v"
  shows "loadModel config fetch_impl m =
           ([Set_timeout (timeout config),
             Fetch \<lparr>url = serverUrl config @ ''/models/load'',
                    init = \<lparr>http_method = Some ''POST'',
                            body = Some (JObj [(''model'', JStr m)]),
                            headers = Some [(''Content-Type'', ''application/json'')]\<rparr>,
                    signal = True\<rparr>,
             Clear_timeout],
            Inr ())
       \<and> unloadModel config fetch_impl m =
           ([Set_timeout (timeout config),
             Fetch \<lparr>url = serverUrl config @ ''/models/unload'',
                    init = \<lparr>http_method = Some ''POST'',
                            body = Some (JObj [(''model'', JStr m)]),
                            headers = Some [(''Content-Type'', ''application/json'')]\<rparr>,
                    signal = True\<rparr>,
             Clear_timeout],
            Inr ())"
  using assms
  by (simp add: loadModel_def unloadModel_def discard_def fetchJson_def post_def opt_field_def
      nullish_or_def spread_def response_json_def Let_def)

text \<open>A 200 answer whose body is \<open>{"success": true}\<close>.\<close>

theorem load_model_resolves_on_json_body_witness:
  "ok success_ok
   \<and> sent_body success_ok = Json_doc (JObj [(''success'', JBool True)])
   \<and> snd (loadModel example_config answers_success ''/models/test.gguf'') = Inr ()
   \<and> snd (unloadModel example_config answers_success ''/models/test.gguf'') = Inr ()"
proof -
  have a: "\<And>request. answers_success request = Inr success_ok"
    by (simp add: answers_success_def)
  have o: "ok success_ok" by (simp add: ok_def success_ok_def)
  have b: "sent_body success_ok = Json_doc (JObj [(''success'', JBool True)])"
    by (simp add: success_ok_def)
  show ?thesis
    using o b load_model_resolves_on_json_body
        [OF a o b, where config = example_config and m = "''/models/test.gguf''"]
    by simp
qed

text \<open>
  Claim C9 as stated fails on a 2xx answer that has no body: \<open>fetchJson\<close> still calls
  \<open>response.json()\<close>, which rejects on an empty body, and both methods reject with it.
\<close>

theorem load_model_empty_body_counterexample:
  "ok empty_ok
   \<and> sent_body empty_ok = No_body
   \<and> length (requests (fst (loadModel example_config answers_empty_ok ''/models/test.gguf''))) = 1
   \<and> snd (loadModel example_config answers_empty_ok ''/models/test.gguf'')
       = Inl (Error ''Unexpected end of JSON input'')
   \<and> snd (unloadModel example_config answers_empty_ok ''/models/test.gguf'')
       = Inl (Error ''Unexpected end of JSON input'')"
  by (simp add: ok_def empty_ok_def answers_empty_ok_def loadModel_def unloadModel_def
      discard_def fetchJson_def response_json_def Let_def)

end
